theory Spec2Isabelle
  imports Complex_Main "HOL-Library.AList"
begin

section \<open>Python primitives used by the sources\<close>

text \<open>
  Text is a list of characters; a character stands for one code point below 256, so
  \<open>length\<close> is Python's \<open>len\<close> on such text. Indices, sizes and overlaps are
  Python's unbounded integers (\<open>int\<close>).
\<close>

text \<open>\<open>str.isspace\<close> on one code point below 256.\<close>

definition py_isspace :: "char \<Rightarrow> bool" where
  "py_isspace c = ((of_char c :: nat) \<in> {9, 10, 11, 12, 13, 28, 29, 30, 31, 32, 133, 160})"

text \<open>\<open>str.strip()\<close>: leading and trailing whitespace removed.\<close>

definition strip :: "string \<Rightarrow> string" where
  "strip s = rev (dropWhile py_isspace (rev (dropWhile py_isspace s)))"

text \<open>
  How a slice bound is read against a sequence of length \<open>n\<close>: a negative bound counts
  from the end, and every bound is clamped into \<open>0..n\<close>.
\<close>

definition py_index :: "nat \<Rightarrow> int \<Rightarrow> nat" where
  "py_index n i = (if i < 0 then nat (int n + i) else min n (nat i))"

text \<open>\<open>xs[i:j]\<close>\<close>

definition py_slice :: "'a list \<Rightarrow> int \<Rightarrow> int \<Rightarrow> 'a list" where
  "py_slice xs i j =
     (let s = py_index (length xs) i; e = py_index (length xs) j
      in take (e - s) (drop s xs))"

text \<open>\<open>xs[i:]\<close>\<close>

definition py_slice_from :: "'a list \<Rightarrow> int \<Rightarrow> 'a list" where
  "py_slice_from xs i = drop (py_index (length xs) i) xs"

text \<open>
  \<open>text.rfind(sub, i, j)\<close>: the highest index \<open>k\<close> with \<open>sub\<close> lying inside
  \<open>text[i:j]\<close> at \<open>k\<close>, or \<open>-1\<close> when there is none.
\<close>

definition rfind :: "string \<Rightarrow> string \<Rightarrow> int \<Rightarrow> int \<Rightarrow> int" where
  "rfind txt sub i j =
     (let s = py_index (length txt) i; e = py_index (length txt) j
      in case filter (\<lambda>k. take (length sub) (drop k txt) = sub)
                (rev [s ..< Suc e - length sub]) of
           [] \<Rightarrow> - 1
         | k # _ \<Rightarrow> int k)"

text \<open>\<open>sep.join(parts)\<close>\<close>

fun join :: "string \<Rightarrow> string list \<Rightarrow> string" where
  "join sep [] = []"
| "join sep [p] = p"
| "join sep (p # q # ps) = p @ sep @ join sep (q # ps)"

text \<open>\<open>str(n)\<close> for a natural number, as an f-string prints it.\<close>

fun str_nat :: "nat \<Rightarrow> string" where
  "str_nat n =
     (if n < 10 then [''0123456789'' ! n]
      else str_nat (n div 10) @ [''0123456789'' ! (n mod 10)])"

declare str_nat.simps [simp del]

section \<open>document\_loader.py: the chunker\<close>

text \<open>The markers tried in turn by the \<open>for punct in [...]\<close> loop of \<open>_split_text\<close>.\<close>

definition boundary_markers :: "string list" where
  "boundary_markers = [''. '', ''! '', ''? '', [CHR 0x0A, CHR 0x0A]]"

text \<open>
  The \<open>for punct\<close> loop: the first marker of the list that occurs in the window moves
  the cut to just after its last occurrence (\<open>break\<close>); with no marker found the cut stays.
\<close>

fun snap_end :: "string \<Rightarrow> int \<Rightarrow> int \<Rightarrow> string list \<Rightarrow> int" where
  "snap_end txt start end [] = end"
| "snap_end txt start end (punct # puncts) =
     (let last_punct = rfind txt punct start end
      in if last_punct \<noteq> - 1 then last_punct + int (length punct)
         else snap_end txt start end puncts)"

text \<open>Lines 182 to 191: the cut end of the window that starts at \<open>start\<close>.\<close>

definition window_end :: "string \<Rightarrow> int \<Rightarrow> int \<Rightarrow> int" where
  "window_end txt chunk_size start =
     (let end = start + chunk_size
      in if end < int (length txt) then snap_end txt start end boundary_markers else end)"

text \<open>Lines 198 to 200: the next window start, clamped at 0.\<close>

definition next_start :: "int \<Rightarrow> int \<Rightarrow> int" where
  "next_start chunk_overlap end =
     (let start = end - chunk_overlap in if start < 0 then 0 else start)"

text \<open>
  The \<open>while start < len(text)\<close> loop. The loop may run forever, so the function is
  partial: \<open>None\<close> is the loop not returning.
\<close>

partial_function (option) split_loop ::
  "string \<Rightarrow> int \<Rightarrow> int \<Rightarrow> int \<Rightarrow> string list \<Rightarrow> string list option" where
  "split_loop txt chunk_size chunk_overlap start chunks =
     (if start < int (length txt) then
        (let end = window_end txt chunk_size start;
             chunk = strip (py_slice txt start end)
         in split_loop txt chunk_size chunk_overlap (next_start chunk_overlap end)
              (if chunk \<noteq> [] then chunks @ [chunk] else chunks))
      else Some chunks)"

declare split_loop.simps [code]

text \<open>\<open>DocumentLoader._split_text\<close>, with the two settings it reads as parameters.\<close>

definition split_text :: "int \<Rightarrow> int \<Rightarrow> string \<Rightarrow> string list option" where
  "split_text chunk_size chunk_overlap txt =
     (if int (length txt) \<le> chunk_size then Some [txt]
      else split_loop txt chunk_size chunk_overlap 0 [])"

section \<open>Dictionaries and metadata values\<close>

text \<open>
  A Python \<open>dict\<close> keeps its keys in insertion order, so it is an association list with
  distinct keys: \<open>d[k] = v\<close> is \<open>AList.update k v d\<close> (an existing key keeps its place,
  a new key goes to the end), \<open>del d[k]\<close> is \<open>AList.delete k d\<close>, \<open>d.get(k)\<close> is
  \<open>map_of d k\<close>.
\<close>

definition dict_get_default :: "('k \<times> 'v) list \<Rightarrow> 'k \<Rightarrow> 'v \<Rightarrow> 'v" where
  "dict_get_default d k dflt = (case map_of d k of None \<Rightarrow> dflt | Some v \<Rightarrow> v)"

definition dict_contains :: "('k \<times> 'v) list \<Rightarrow> 'k \<Rightarrow> bool" where
  "dict_contains d k = (map_of d k \<noteq> None)"

text \<open>The scalar values that appear in metadata dictionaries: strings and integers.\<close>

datatype meta_value = MStr string | MInt int

text \<open>How an f-string prints such a value.\<close>

definition py_str :: "meta_value \<Rightarrow> string" where
  "py_str v =
     (case v of
        MStr s \<Rightarrow> s
      | MInt i \<Rightarrow> (if i < 0 then ''-'' @ str_nat (nat (- i)) else str_nat (nat i)))"

section \<open>document\_loader.py: chunk\_document\<close>

text \<open>
  One entry of \<open>document['content']\<close>: its \<open>'text'\<close> and its other items (the loaders
  add exactly one of \<open>'page'\<close>, \<open>'paragraph'\<close>, \<open>'section'\<close>, \<open>'row'\<close>).
\<close>

record text_part =
  part_text :: string
  part_attrs :: "(string \<times> meta_value) list"

record document =
  doc_content :: "text_part list"
  doc_type :: string

record chunk =
  chunk_content :: string
  chunk_metadata :: "(string \<times> meta_value) list"

text \<open>The parts the loaders of this file build: one attribute, named by the loader.\<close>

definition loader_part :: "text_part \<Rightarrow> bool" where
  "loader_part p =
     (map fst (part_attrs p) \<in> set [[''page''], [''paragraph''], [''section''], [''row'']])"

text \<open>
  The dictionary display of lines 161 to 166: the three fixed keys, then the part's other
  items unpacked over them.
\<close>

definition make_metadata ::
  "string \<Rightarrow> string \<Rightarrow> nat \<Rightarrow> (string \<times> meta_value) list \<Rightarrow> (string \<times> meta_value) list" where
  "make_metadata filename ty i attrs =
     foldl (\<lambda>d (k, v). AList.update k v d)
       [(''source'', MStr filename), (''type'', MStr ty), (''chunk_index'', MInt (int i))]
       attrs"

definition make_chunk :: "string \<Rightarrow> string \<Rightarrow> text_part \<Rightarrow> nat \<times> string \<Rightarrow> chunk" where
  "make_chunk filename ty part ic =
     \<lparr>chunk_content = snd ic,
      chunk_metadata = make_metadata filename ty (fst ic) (part_attrs part)\<rparr>"

text \<open>
  The outer \<open>for part in document['content']\<close> loop, with the inner \<open>enumerate\<close> loop as
  a map. A split that does not return leaves the whole call without a result.
\<close>

fun chunk_parts ::
  "int \<Rightarrow> int \<Rightarrow> string \<Rightarrow> string \<Rightarrow> text_part list \<Rightarrow> chunk list \<Rightarrow> chunk list option" where
  "chunk_parts chunk_size chunk_overlap filename ty [] chunks = Some chunks"
| "chunk_parts chunk_size chunk_overlap filename ty (part # parts) chunks =
     (case split_text chunk_size chunk_overlap (part_text part) of
        None \<Rightarrow> None
      | Some text_chunks \<Rightarrow>
          chunk_parts chunk_size chunk_overlap filename ty parts
            (chunks @ map (make_chunk filename ty part) (enumerate 0 text_chunks)))"

definition chunk_document :: "int \<Rightarrow> int \<Rightarrow> document \<Rightarrow> string \<Rightarrow> chunk list option" where
  "chunk_document chunk_size chunk_overlap doc filename =
     chunk_parts chunk_size chunk_overlap filename (doc_type doc) (doc_content doc) []"

section \<open>rag\_engine.py\<close>

text \<open>
  Floating-point numbers are modelled by the real numbers they denote, and a comparison
  of two floats is the comparison of these reals. \<open>round(x, 2)\<close> rounds to the nearest
  multiple of 0.01, a tie going to the even one. In \<open>_calculate_confidence\<close> and
  \<open>_format_sources\<close> the arithmetic is the exact one. In \<open>_build_context\<close> the outcome of
  the test depends on how the difference \<open>1 - SIMILARITY_THRESHOLD\<close> is rounded, so there
  the floating-point subtraction is a parameter, \<open>float_sub\<close>, of which nothing is
  assumed.
\<close>

definition round_half_even :: "real \<Rightarrow> int" where
  "round_half_even y =
     (let f = \<lfloor>y\<rfloor>; r = y - of_int f
      in if r < 1 / 2 then f else if 1 / 2 < r then f + 1 else if even f then f else f + 1)"

definition py_round2 :: "real \<Rightarrow> real" where
  "py_round2 x = of_int (round_half_even (x * 100)) / 100"

text \<open>One entry of the \<open>'results'\<close> list built by \<open>VectorStore.search\<close>.\<close>

record retrieval_hit =
  hit_content :: string
  hit_metadata :: "(string \<times> meta_value) list"
  distance :: real
  hit_id :: string

text \<open>The f-string of lines 95 to 97.\<close>

definition source_block :: "nat \<Rightarrow> retrieval_hit \<Rightarrow> string" where
  "source_block i doc =
     ''[Source '' @ str_nat i @ '': ''
       @ py_str (dict_get_default (hit_metadata doc) ''source'' (MStr ''Unknown''))
       @ '']'' @ [CHR 0x0A] @ hit_content doc @ [CHR 0x0A]"

text \<open>The loop of \<open>_build_context\<close> over \<open>enumerate(retrieved_docs, 1)\<close>.\<close>

fun context_loop ::
  "(real \<Rightarrow> real \<Rightarrow> real) \<Rightarrow> real \<Rightarrow> (nat \<times> retrieval_hit) list \<Rightarrow> string list \<Rightarrow> string list" where
  "context_loop float_sub similarity_threshold [] context_parts = context_parts"
| "context_loop float_sub similarity_threshold ((i, doc) # rest) context_parts =
     (if distance doc < float_sub 1 similarity_threshold
      then context_loop float_sub similarity_threshold rest
             (context_parts @ [source_block i doc])
      else context_loop float_sub similarity_threshold rest context_parts)"

definition context_separator :: string where
  "context_separator = [CHR 0x0A] @ ''---'' @ [CHR 0x0A]"

definition build_context ::
  "(real \<Rightarrow> real \<Rightarrow> real) \<Rightarrow> real \<Rightarrow> retrieval_hit list \<Rightarrow> string" where
  "build_context float_sub similarity_threshold retrieved_docs =
     (if retrieved_docs = [] then []
      else join context_separator
             (context_loop float_sub similarity_threshold (enumerate 1 retrieved_docs) []))"

record source_info =
  source :: meta_value
  relevance :: real
  page :: "meta_value option"
  section_of :: "meta_value option"

text \<open>The loop of \<open>_format_sources\<close>, with its \<open>seen_sources\<close> set.\<close>

fun format_loop ::
  "retrieval_hit list \<Rightarrow> source_info list \<Rightarrow> meta_value set \<Rightarrow> source_info list" where
  "format_loop [] sources seen_sources = sources"
| "format_loop (doc # rest) sources seen_sources =
     (let source_name = dict_get_default (hit_metadata doc) ''source'' (MStr ''Unknown'')
      in if source_name \<notin> seen_sources
         then format_loop rest
                (sources @ [\<lparr>source = source_name,
                              relevance = py_round2 (1 - distance doc),
                              page = map_of (hit_metadata doc) ''page'',
                              section_of = map_of (hit_metadata doc) ''section''\<rparr>])
                (insert source_name seen_sources)
         else format_loop rest sources seen_sources)"

definition format_sources :: "retrieval_hit list \<Rightarrow> source_info list" where
  "format_sources retrieved_docs = format_loop retrieved_docs [] {}"

definition calculate_confidence :: "retrieval_hit list \<Rightarrow> real" where
  "calculate_confidence retrieved_docs =
     (if retrieved_docs = [] then 0
      else (let top_results = take 3 retrieved_docs;
                avg_similarity =
                  sum_list (map (\<lambda>doc. 1 - distance doc) top_results)
                    / real (length top_results)
            in py_round2 avg_similarity))"

text \<open>
  An exception is a value: its class name and its message. The two collaborators of
  \<open>query\<close> (the index search and the generation call) are parameters that either raise
  (\<open>Inl\<close>) or return (\<open>Inr\<close>).
\<close>

datatype py_exception = PyException (exc_class: string) (exc_message: string)

record claude_response =
  response :: string
  model :: string
  usage :: "int \<times> int"
  stop_reason :: string

record query_result =
  answer :: string
  sources :: "source_info list"
  retrieved_chunks :: nat
  response_time :: real
  model_used :: string
  tokens_used :: "int \<times> int"
  confidence :: real

text \<open>
  \<open>RAGEngine.query\<close>. The settings it reads (\<open>TOP_K_RESULTS\<close>, \<open>SIMILARITY_THRESHOLD\<close>),
  the floating-point subtraction and the two readings of the clock are parameters. The
  handler of lines 80 to 82 re-raises what it catches, so an exception of a collaborator
  is the exception of the call.
\<close>

definition query ::
  "(string \<Rightarrow> int \<Rightarrow> 'f option \<Rightarrow> py_exception + retrieval_hit list) \<Rightarrow>
   (string \<Rightarrow> string \<Rightarrow> 'h option \<Rightarrow> py_exception + claude_response) \<Rightarrow>
   (real \<Rightarrow> real \<Rightarrow> real) \<Rightarrow> int \<Rightarrow> real \<Rightarrow> real \<Rightarrow> real \<Rightarrow>
   string \<Rightarrow> 'h option \<Rightarrow> 'f option \<Rightarrow> int option \<Rightarrow> py_exception + query_result" where
  "query search generate_response float_sub top_k_results similarity_threshold start_time
     end_time user_query conversation_history filter_metadata top_k =
     (case search user_query
             (case top_k of None \<Rightarrow> top_k_results
              | Some k \<Rightarrow> if k \<noteq> 0 then k else top_k_results)
             filter_metadata of
        Inl e \<Rightarrow> Inl e
      | Inr retrieved_docs \<Rightarrow>
          (let context = build_context float_sub similarity_threshold retrieved_docs
           in case generate_response user_query context conversation_history of
                Inl e \<Rightarrow> Inl e
              | Inr claude_response \<Rightarrow>
                  (let total_time = end_time - start_time;
                       sources = format_sources retrieved_docs
                   in Inr \<lparr>answer = response claude_response,
                           sources = sources,
                           retrieved_chunks = length retrieved_docs,
                           response_time = py_round2 total_time,
                           model_used = model claude_response,
                           tokens_used = usage claude_response,
                           confidence = calculate_confidence retrieved_docs\<rparr>)))"

section \<open>memory.py: ConversationMemory\<close>

text \<open>
  A \<open>datetime\<close> is a count of microseconds and a \<open>timedelta\<close> a difference of two. Each
  operation gets the reading of the clock as its parameter \<open>now\<close>; the several readings
  inside one call of \<open>add_message\<close> are taken as one.
\<close>

text \<open>
  A session dictionary. The record that \<open>add_message\<close> creates for an unknown id has no
  \<open>'user_id'\<close> key; it is \<open>None\<close> here.
\<close>

record session =
  sess_session_id :: string
  sess_user_id :: "string option"
  created_at :: int
  last_activity :: int
  is_active :: bool

text \<open>A message dictionary; \<open>'v\<close> is the type of the values of its metadata.\<close>

record 'v message =
  msg_role :: string
  msg_content :: string
  msg_timestamp :: int
  msg_metadata :: "(string \<times> 'v) list"

text \<open>The two tables of the object.\<close>

record 'v conversation_memory =
  sessions :: "(string \<times> session) list"
  message_history :: "(string \<times> 'v message list) list"

text \<open>
  \<open>add_message\<close>, with \<open>settings.MAX_CONVERSATION_HISTORY\<close> as \<open>max_history\<close>. Reading
  \<open>self.message_history[session_id]\<close> of the \<open>defaultdict\<close> gives the empty list for a new
  key; the trimmed slice is \<open>history[-max_history * 2:]\<close>.
\<close>

definition add_message ::
  "int \<Rightarrow> int \<Rightarrow> 'v conversation_memory \<Rightarrow> string \<Rightarrow> string \<Rightarrow> string \<Rightarrow>
   (string \<times> 'v) list option \<Rightarrow> 'v conversation_memory" where
  "add_message max_history now mem session_id role content metadata =
     (let sessions1 =
            (if \<not> dict_contains (sessions mem) session_id
             then AList.update session_id
                    \<lparr>sess_session_id = session_id, sess_user_id = None, created_at = now,
                     last_activity = now, is_active = True\<rparr>
                    (sessions mem)
             else sessions mem);
          message =
            \<lparr>msg_role = role, msg_content = content, msg_timestamp = now,
             msg_metadata = (case metadata of None \<Rightarrow> [] | Some m \<Rightarrow> m)\<rparr>;
          history1 = dict_get_default (message_history mem) session_id [] @ [message];
          sessions2 = AList.map_entry session_id (\<lambda>s. s\<lparr>last_activity := now\<rparr>) sessions1;
          history2 =
            (if int (length history1) > max_history * 2
             then py_slice_from history1 (- max_history * 2)
             else history1)
      in \<lparr>sessions = sessions2,
          message_history = AList.update session_id history2 (message_history mem)\<rparr>)"

text \<open>\<open>get_history\<close>: \<open>if limit:\<close> holds for a limit that is neither \<open>None\<close> nor 0.\<close>

definition get_history ::
  "'v conversation_memory \<Rightarrow> string \<Rightarrow> int option \<Rightarrow> 'v message list" where
  "get_history mem session_id limit =
     (let history = dict_get_default (message_history mem) session_id []
      in case limit of
           None \<Rightarrow> history
         | Some l \<Rightarrow> if l \<noteq> 0 then py_slice_from history (- l) else history)"

definition get_formatted_history ::
  "'v conversation_memory \<Rightarrow> string \<Rightarrow> int option \<Rightarrow> (string \<times> string) list" where
  "get_formatted_history mem session_id limit =
     map (\<lambda>msg. (msg_role msg, msg_content msg)) (get_history mem session_id limit)"

text \<open>
  \<open>timedelta(minutes=m)\<close>: the number of microseconds. The constructor raises
  \<open>OverflowError\<close> when the number of whole days, \<open>m\<close> divided by 1440 and rounded down, has
  a magnitude above 999999999.
\<close>

datatype py_error = OverflowError

definition timedelta_minutes :: "int \<Rightarrow> py_error + int" where
  "timedelta_minutes m =
     (if 999999999 < \<bar>m div 1440\<bar> then Inl OverflowError else Inr (m * 60000000))"

text \<open>The first loop of \<open>cleanup_expired_sessions\<close>: the ids of the expired sessions.\<close>

fun collect_expired :: "int \<Rightarrow> int \<Rightarrow> (string \<times> session) list \<Rightarrow> string list \<Rightarrow> string list" where
  "collect_expired now timeout [] expired_sessions = expired_sessions"
| "collect_expired now timeout ((session_id, session) # rest) expired_sessions =
     (if now - last_activity session > timeout
      then collect_expired now timeout rest (expired_sessions @ [session_id])
      else collect_expired now timeout rest expired_sessions)"

text \<open>The second loop: each expired session leaves both tables.\<close>

fun delete_expired :: "string list \<Rightarrow> 'v conversation_memory \<Rightarrow> 'v conversation_memory" where
  "delete_expired [] mem = mem"
| "delete_expired (session_id # rest) mem =
     delete_expired rest
       \<lparr>sessions = AList.delete session_id (sessions mem),
        message_history =
          (if dict_contains (message_history mem) session_id
           then AList.delete session_id (message_history mem)
           else message_history mem)\<rparr>"

text \<open>What a call evaluates to: \<open>None\<close>, or an integer.\<close>

datatype py_value = PyNone | PyInt int

text \<open>
  The outcome of one sweep that does not raise: the tables afterwards, the number passed
  to the logger (when the list of expired sessions is not empty), and the value of the
  call. The function has no \<open>return\<close> statement, so the call evaluates to \<open>None\<close>.
\<close>

record 'v sweep_outcome =
  swept :: "'v conversation_memory"
  logged :: "nat option"
  returned :: py_value

text \<open>
  \<open>cleanup_expired_sessions\<close>, with \<open>settings.SESSION_TIMEOUT_MINUTES\<close> and the reading
  of the clock of line 155 as parameters. The timeout is built first: when that raises,
  nothing has been touched.
\<close>

definition cleanup_expired_sessions ::
  "int \<Rightarrow> int \<Rightarrow> 'v conversation_memory \<Rightarrow> py_error + 'v sweep_outcome" where
  "cleanup_expired_sessions session_timeout_minutes now mem =
     (case timedelta_minutes session_timeout_minutes of
        Inl e \<Rightarrow> Inl e
      | Inr timeout \<Rightarrow>
          (let expired_sessions = collect_expired now timeout (sessions mem) []
           in Inr \<lparr>swept = delete_expired expired_sessions mem,
                   logged = (if expired_sessions \<noteq> []
                             then Some (length expired_sessions) else None),
                   returned = PyNone\<rparr>))"

text \<open>
  The spec's words for the sweep, to compare the loops with: the ids of the sessions whose
  idle time \<open>now - last_activity\<close> exceeds the timeout, and the two tables without those
  sessions.
\<close>

definition expired_ids :: "int \<Rightarrow> int \<Rightarrow> 'v conversation_memory \<Rightarrow> string list" where
  "expired_ids timeout now mem =
     map fst (filter (\<lambda>(sid, s). now - last_activity s > timeout) (sessions mem))"

definition without_expired ::
  "int \<Rightarrow> int \<Rightarrow> 'v conversation_memory \<Rightarrow> 'v conversation_memory" where
  "without_expired timeout now mem =
     \<lparr>sessions = filter (\<lambda>(sid, s). \<not> now - last_activity s > timeout) (sessions mem),
      message_history =
        filter (\<lambda>(sid, h). sid \<notin> set (expired_ids timeout now mem)) (message_history mem)\<rparr>"

section \<open>Properties of the chunker\<close>

lemma split_loop_Some_moves:
  assumes "split_loop t s ov st ch = Some y"
  shows "\<not> (st < int (length t) \<and> next_start ov (window_end t s st) = st)"
  using assms
proof (induction rule: split_loop.raw_induct[rotated, consumes 1])
  case (1 loop t s ov st ch y)
  show ?case
  proof
    assume stuck: "st < int (length t) \<and> next_start ov (window_end t s st) = st"
    with 1(2) obtain ch' where "loop t s ov st ch' = Some y"
      by (auto simp: Let_def split: if_splits)
    from 1(1)[OF this] stuck show False by simp
  qed
qed

lemma split_loop_stuck:
  assumes "start < int (length t)"
    and "next_start chunk_overlap (window_end t chunk_size start) = start"
  shows "split_loop t chunk_size chunk_overlap start chunks = None"
  using assms split_loop_Some_moves[of t chunk_size chunk_overlap start chunks]
  by (cases "split_loop t chunk_size chunk_overlap start chunks") auto

text \<open>
  A text that starts with the marker \<open>. \<close> and has no other marker, longer than the
  chunk size: with an overlap of 2 or more the first cut is snapped back to 2, the next
  start is 0 again, and the split does not return.
\<close>

lemma rfind_marker_at_start:
  assumes "2 \<le> s"
  shows "rfind (''. '' @ replicate n (CHR ''a'')) ''. '' 0 s = 0"
proof -
  let ?t = "''. '' @ replicate n (CHR ''a'')"
  let ?P = "\<lambda>k. take (length ''. '') (drop k ?t) = ''. ''"
  define m where "m = Suc (py_index (length ?t) s) - length ''. ''"
  have "py_index (length ?t) s \<ge> 2" using assms by (simp add: py_index_def)
  then have m: "0 < m" by (simp add: m_def)
  have no: "\<not> ?P k" if "0 < k" for k
  proof (cases "k < length ?t")
    case True
    then have h1: "hd (take (length ''. '') (drop k ?t)) = ?t ! k"
      by (simp add: hd_drop_conv_nth)
    have h2: "?t ! k \<noteq> CHR ''.''"
      using that True by (cases k) (auto simp: nth_Cons' nth_append)
    show ?thesis
    proof
      assume p: "?P k"
      from h1[unfolded p] h2 show False by simp
    qed
  next
    case False
    then show ?thesis by simp
  qed
  have "[0..<m] = 0 # [1..<m]" using m by (simp add: upt_conv_Cons)
  then have "filter ?P (rev [0..<m]) = filter ?P (rev [1..<m]) @ [0]" by simp
  moreover have "filter ?P (rev [1..<m]) = []"
    using no by (auto simp: filter_empty_conv)
  ultimately have "filter ?P (rev [0..<m]) = [0]" by simp
  then show ?thesis
    unfolding rfind_def Let_def m_def[symmetric]
    by (simp add: py_index_def m_def)
qed

lemma split_text_marker_at_start_diverges:
  assumes "2 \<le> s" and "2 \<le> ov" and "s \<le> int n"
  shows "split_text s ov (''. '' @ replicate n (CHR ''a'')) = None"
proof -
  let ?t = "''. '' @ replicate n (CHR ''a'')"
  have w: "window_end ?t s 0 = 2"
    using assms(3) rfind_marker_at_start[OF assms(1), of n]
    by (simp add: window_end_def boundary_markers_def Let_def)
  have "next_start ov (window_end ?t s 0) = 0"
    unfolding w using assms(2) by (simp add: next_start_def)
  then have "split_loop ?t s ov 0 [] = None"
    by (intro split_loop_stuck) simp_all
  then show ?thesis using assms(3) by (simp add: split_text_def)
qed

text \<open>
  The loop returns whenever every window start below the length of the text is followed
  by a strictly greater one. That is so for every text when the overlap is below the size
  and at most 1: a snapped cut lies at least 2 after the start of its window.
\<close>

lemma split_loop_returns:
  assumes adv: "\<And>st. 0 \<le> st \<Longrightarrow> st < int (length t) \<Longrightarrow> st < next_start ov (window_end t s st)"
    and "0 \<le> start"
  shows "\<exists>y. split_loop t s ov start chunks = Some y"
  using assms(2)
proof (induction "nat (int (length t) - start)" arbitrary: start chunks rule: less_induct)
  case less
  show ?case
  proof (cases "start < int (length t)")
    case False
    then show ?thesis by (subst split_loop.simps) simp
  next
    case True
    let ?n = "next_start ov (window_end t s start)"
    have gt: "start < ?n" using adv[OF less.prems True] .
    then have "nat (int (length t) - ?n) < nat (int (length t) - start)" "0 \<le> ?n"
      using True less.prems by simp_all
    from less.hyps[OF this]
    obtain y where "split_loop t s ov ?n
        (if strip (py_slice t start (window_end t s start)) \<noteq> []
         then chunks @ [strip (py_slice t start (window_end t s start))] else chunks) = Some y"
      by blast
    then show ?thesis
      using True by (subst split_loop.simps) (simp add: Let_def)
  qed
qed

lemma rfind_ge_start:
  assumes "0 \<le> i" and "i \<le> int (length t)" and "rfind t sub i j \<noteq> - 1"
  shows "i \<le> rfind t sub i j"
proof -
  let ?c = "filter (\<lambda>k. take (length sub) (drop k t) = sub)
              (rev [py_index (length t) i ..< Suc (py_index (length t) j) - length sub])"
  from assms(3) obtain k ks where c: "?c = k # ks"
    by (cases ?c) (simp_all add: rfind_def Let_def)
  then have "k \<in> set ?c" by simp
  then have "py_index (length t) i \<le> k" by simp
  moreover have "py_index (length t) i = nat i" using assms(1,2) by (simp add: py_index_def)
  moreover have "rfind t sub i j = int k" using c by (simp add: rfind_def Let_def)
  ultimately show ?thesis using assms(1) by simp
qed

lemma snap_end_advances:
  assumes "0 \<le> st" and "st \<le> int (length t)" and "list_all (\<lambda>p. length p = 2) ps"
  shows "snap_end t st e ps = e \<or> st + 2 \<le> snap_end t st e ps"
  using assms(3)
proof (induction ps)
  case Nil
  show ?case by simp
next
  case (Cons p ps)
  show ?case
  proof (cases "rfind t p st e = - 1")
    case True
    with Cons show ?thesis by (simp add: Let_def)
  next
    case False
    from rfind_ge_start[OF assms(1,2) False] Cons.prems False
    show ?thesis by (simp add: Let_def)
  qed
qed

lemma split_text_returns_small_overlap:
  assumes "ov < s" and "ov \<le> 1"
  shows "\<exists>y. split_text s ov t = Some y"
proof -
  have adv: "st < next_start ov (window_end t s st)" if "0 \<le> st" "st < int (length t)" for st
  proof -
    have "window_end t s st = st + s \<or> st + 2 \<le> window_end t s st"
      using snap_end_advances[of st t boundary_markers "st + s"] that
      by (auto simp: window_end_def Let_def boundary_markers_def)
    then have "st < window_end t s st - ov" using assms by auto
    then show ?thesis using that by (simp add: next_start_def Let_def)
  qed
  from split_loop_returns[of t ov s 0 "[]", OF adv]
  show ?thesis by (simp add: split_text_def)
qed

text \<open>
  C1. The claim: for every text and every configuration with overlap below size the split
  returns, because each next window start lies strictly after the previous one, also when
  the cut was snapped back to a boundary marker. The code does not do this: with size 4
  and overlap 2 the text \<open>. aaaa\<close> is longer than the size, the first window \<open>[0, 4)\<close>
  holds the marker \<open>. \<close> at index 0, the cut is snapped back to 2, and the next start
  \<open>2 - 2 = 0\<close> is the previous start again. The loop then repeats the same window for
  ever, and the split does not return. The same happens with the shipped settings (size
  1000, overlap 200) on the marker \<open>. \<close> followed by 1000 letters.
\<close>

theorem split_text_snapped_window_diverges:
  "window_end ''. aaaa'' 4 0 = 2 \<and> next_start 2 (window_end ''. aaaa'' 4 0) = 0
   \<and> split_text 4 2 ''. aaaa'' = None
   \<and> split_text 1000 200 (''. '' @ replicate 1000 (CHR ''a'')) = None"
proof -
  have w: "window_end ''. aaaa'' 4 0 = 2"
    by (simp add: window_end_def boundary_markers_def rfind_def py_index_def Let_def)
  have n: "next_start 2 (window_end ''. aaaa'' 4 0) = 0"
    by (simp add: w next_start_def)
  have "split_loop ''. aaaa'' 4 2 0 [] = None"
    by (rule split_loop_stuck) (simp_all add: n)
  then have small: "split_text 4 2 ''. aaaa'' = None"
    by (simp add: split_text_def)
  have shipped: "split_text 1000 200 (''. '' @ replicate 1000 (CHR ''a'')) = None"
    by (rule split_text_marker_at_start_diverges) simp_all
  show ?thesis
    using w n small shipped by blast
qed

text \<open>
  C8. The claim: for the empty text the split returns the empty sequence. The code returns
  early with \<open>[text]\<close> whenever the text is no longer than the chunk size, so with the
  shipped settings (size 1000, overlap 200) the empty text gives one empty chunk. The
  window loop, in contrast, strips each piece and drops the empty ones.
\<close>

theorem split_text_empty_gives_one_empty_chunk:
  "split_text 1000 200 '''' = Some ['''']"
  by (simp add: split_text_def)

section \<open>Properties of the confidence score\<close>

lemma round_half_even_bounds:
  assumes "of_int m \<le> y" and "y \<le> of_int n"
  shows "m \<le> round_half_even y \<and> round_half_even y \<le> n"
proof -
  have lo: "m \<le> \<lfloor>y\<rfloor>" using assms(1) by (simp add: le_floor_iff)
  have hi: "\<lfloor>y\<rfloor> \<le> n" using assms(2) by (simp add: floor_le_iff)
  show ?thesis
  proof (cases "\<lfloor>y\<rfloor> = n")
    case True
    then have "y - of_int \<lfloor>y\<rfloor> \<le> 0" using assms(2) by simp
    then have "round_half_even y = \<lfloor>y\<rfloor>" by (simp add: round_half_even_def Let_def)
    then show ?thesis using lo hi by simp
  next
    case False
    then have "\<lfloor>y\<rfloor> + 1 \<le> n" using hi by simp
    moreover have "round_half_even y = \<lfloor>y\<rfloor> \<or> round_half_even y = \<lfloor>y\<rfloor> + 1"
      by (simp add: round_half_even_def Let_def)
    ultimately show ?thesis using lo by auto
  qed
qed

lemma py_round2_bounds:
  assumes "of_int m / 100 \<le> x" and "x \<le> of_int n / 100"
  shows "of_int m / 100 \<le> py_round2 x \<and> py_round2 x \<le> of_int n / 100"
proof -
  have "of_int m \<le> x * 100" "x * 100 \<le> of_int n" using assms by (simp_all add: field_simps)
  from round_half_even_bounds[OF this] show ?thesis
    by (simp add: py_round2_def divide_le_cancel)
qed

lemma sum_list_similarity_bounds:
  assumes "list_all (\<lambda>doc. lo \<le> distance doc \<and> distance doc \<le> hi) docs"
  shows "(1 - hi) * real (length docs) \<le> sum_list (map (\<lambda>doc. 1 - distance doc) docs)
       \<and> sum_list (map (\<lambda>doc. 1 - distance doc) docs) \<le> (1 - lo) * real (length docs)"
  using assms by (induction docs) (auto simp: algebra_simps)

lemma avg_similarity_bounds:
  assumes "list_all (\<lambda>doc. lo \<le> distance doc \<and> distance doc \<le> hi) docs" and "docs \<noteq> []"
  shows "1 - hi \<le> sum_list (map (\<lambda>doc. 1 - distance doc) docs) / real (length docs)
       \<and> sum_list (map (\<lambda>doc. 1 - distance doc) docs) / real (length docs) \<le> 1 - lo"
proof -
  have "0 < real (length docs)" using assms(2) by simp
  then show ?thesis
    using sum_list_similarity_bounds[OF assms(1)]
    by (simp add: pos_le_divide_eq pos_divide_le_eq)
qed

lemma list_all_take: "list_all P xs \<Longrightarrow> list_all P (take n xs)"
  by (induction xs arbitrary: n) (auto simp: take_Cons split: nat.splits)

lemma confidence_between:
  assumes "list_all (\<lambda>doc. lo \<le> distance doc \<and> distance doc \<le> hi) docs" and "docs \<noteq> []"
    and "1 - hi = of_int m / 100" and "1 - lo = of_int n / 100"
  shows "of_int m / 100 \<le> calculate_confidence docs \<and> calculate_confidence docs \<le> of_int n / 100"
proof -
  have ne: "take 3 docs \<noteq> []" using assms(2) by (cases docs) simp_all
  have "list_all (\<lambda>doc. lo \<le> distance doc \<and> distance doc \<le> hi) (take 3 docs)"
    using assms(1) by (rule list_all_take)
  from avg_similarity_bounds[OF this ne] assms(3,4)
  have "of_int m / 100 \<le> sum_list (map (\<lambda>doc. 1 - distance doc) (take 3 docs)) / real (length (take 3 docs))
      \<and> sum_list (map (\<lambda>doc. 1 - distance doc) (take 3 docs)) / real (length (take 3 docs)) \<le> of_int n / 100"
    by simp
  then have "of_int m / 100 \<le> py_round2 (sum_list (map (\<lambda>doc. 1 - distance doc) (take 3 docs)) / real (length (take 3 docs)))
      \<and> py_round2 (sum_list (map (\<lambda>doc. 1 - distance doc) (take 3 docs)) / real (length (take 3 docs))) \<le> of_int n / 100"
    using py_round2_bounds by blast
  then show ?thesis using assms(2) by (simp add: calculate_confidence_def Let_def)
qed

text \<open>
  C2, as stated, fails. The claim: every non-empty list of hits with distances in \<open>[0, 2]\<close>
  scores in \<open>[0, 1]\<close>. A single hit at distance 2 has similarity \<open>1 - 2 = -1\<close>, the
  average is \<open>-1\<close>, and the score is \<open>-1\<close>, below 0: the function does not clamp.
\<close>

theorem confidence_out_of_unit_interval:
  "0 \<le> distance \<lparr>hit_content = ''x'', hit_metadata = [], distance = 2, hit_id = ''a''\<rparr>
   \<and> distance \<lparr>hit_content = ''x'', hit_metadata = [], distance = 2, hit_id = ''a''\<rparr> \<le> 2
   \<and> calculate_confidence [\<lparr>hit_content = ''x'', hit_metadata = [], distance = 2, hit_id = ''a''\<rparr>] = - 1
   \<and> \<not> (0 \<le> calculate_confidence [\<lparr>hit_content = ''x'', hit_metadata = [], distance = 2, hit_id = ''a''\<rparr>])"
  by (simp add: calculate_confidence_def py_round2_def round_half_even_def Let_def)

text \<open>
  C2, amended. For a non-empty list of hits whose distances all lie in \<open>[0, 2]\<close> the score
  lies in \<open>[-1, 1]\<close>; it lies in \<open>[0, 1]\<close> when the distances all lie in \<open>[0, 1]\<close>; and
  the score of the empty list is exactly 0.
\<close>

theorem confidence_bounds:
  "(docs \<noteq> [] \<and> list_all (\<lambda>doc. 0 \<le> distance doc \<and> distance doc \<le> 2) docs
      \<longrightarrow> - 1 \<le> calculate_confidence docs \<and> calculate_confidence docs \<le> 1)
   \<and> (docs \<noteq> [] \<and> list_all (\<lambda>doc. 0 \<le> distance doc \<and> distance doc \<le> 1) docs
      \<longrightarrow> 0 \<le> calculate_confidence docs \<and> calculate_confidence docs \<le> 1)
   \<and> calculate_confidence [] = 0"
proof (intro conjI impI)
  assume a: "docs \<noteq> [] \<and> list_all (\<lambda>doc. 0 \<le> distance doc \<and> distance doc \<le> 2) docs"
  from confidence_between[of 0 2 docs "- 100" 100] a
  show "- 1 \<le> calculate_confidence docs" "calculate_confidence docs \<le> 1" by simp_all
next
  assume a: "docs \<noteq> [] \<and> list_all (\<lambda>doc. 0 \<le> distance doc \<and> distance doc \<le> 1) docs"
  from confidence_between[of 0 1 docs 0 100] a
  show "0 \<le> calculate_confidence docs" "calculate_confidence docs \<le> 1" by simp_all
next
  show "calculate_confidence [] = 0" by (simp add: calculate_confidence_def)
qed

theorem confidence_bounds_witness:
  "- 1 \<le> calculate_confidence
       [\<lparr>hit_content = ''a'', hit_metadata = [], distance = 3 / 2, hit_id = ''1''\<rparr>,
        \<lparr>hit_content = ''b'', hit_metadata = [], distance = 2, hit_id = ''2''\<rparr>]
   \<and> calculate_confidence
       [\<lparr>hit_content = ''a'', hit_metadata = [], distance = 3 / 2, hit_id = ''1''\<rparr>,
        \<lparr>hit_content = ''b'', hit_metadata = [], distance = 2, hit_id = ''2''\<rparr>] \<le> 1
   \<and> 0 \<le> calculate_confidence
       [\<lparr>hit_content = ''a'', hit_metadata = [], distance = 1 / 4, hit_id = ''1''\<rparr>]
   \<and> calculate_confidence
       [\<lparr>hit_content = ''a'', hit_metadata = [], distance = 1 / 4, hit_id = ''1''\<rparr>] \<le> 1"
  using confidence_bounds[of "[\<lparr>hit_content = ''a'', hit_metadata = [], distance = 3 / 2, hit_id = ''1''\<rparr>,
        \<lparr>hit_content = ''b'', hit_metadata = [], distance = 2, hit_id = ''2''\<rparr>]"]
    confidence_bounds[of "[\<lparr>hit_content = ''a'', hit_metadata = [], distance = 1 / 4, hit_id = ''1''\<rparr>]"]
  by simp

section \<open>Properties of context assembly\<close>

lemma context_loop_eq:
  "context_loop float_sub thr ixs acc =
     acc @ map (\<lambda>(i, doc). source_block i doc)
             (filter (\<lambda>(i, doc). distance doc < float_sub 1 thr) ixs)"
  by (induction ixs arbitrary: acc) auto

lemma enumerate_as_indices:
  "enumerate n xs = map (\<lambda>i. (n + i, xs ! i)) [0..<length xs]"
  by (rule nth_equalityI) (simp_all add: nth_enumerate_eq)

text \<open>
  C3, as stated, fails. The claim: exactly the hits whose similarity \<open>1 - distance\<close> is at
  least the threshold are kept, and a hit whose similarity equals the threshold is
  included. The test of line 92 is the strict \<open>distance < 1 - threshold\<close>, on the rounded
  difference. With threshold 0.5 a hit at distance 0.5 has similarity 0.5, at least the
  threshold, and is left out (the difference \<open>1 - 0.5\<close> is exact). With the threshold the
  float 0.3 and a hit at distance the float 0.7, the similarity lies strictly above the
  threshold, and the hit is left out as well: the exact difference \<open>1 - 0.3\<close> lies halfway
  between two floats and is rounded to the even one, the float 0.7, which the distance is
  not below. The floats 0.3 and 0.7 are \<open>5404319552844595 / 2^54\<close> and
  \<open>6305039478318694 / 2^53\<close>.
\<close>

theorem context_similarity_at_threshold_dropped:
  "(1 / 2 :: real) \<le> 1 - distance \<lparr>hit_content = ''alpha'', hit_metadata = [(''source'', MStr ''a.txt'')],
                                   distance = 1 / 2, hit_id = ''h1''\<rparr>
   \<and> build_context (\<lambda>a b. a - b) (1 / 2)
        [\<lparr>hit_content = ''alpha'', hit_metadata = [(''source'', MStr ''a.txt'')],
          distance = 1 / 2, hit_id = ''h1''\<rparr>] = []
   \<and> (5404319552844595 / 18014398509481984 :: real)
        < 1 - distance \<lparr>hit_content = ''alpha'', hit_metadata = [(''source'', MStr ''a.txt'')],
                         distance = 6305039478318694 / 9007199254740992, hit_id = ''h1''\<rparr>
   \<and> build_context
        (\<lambda>a b. if a = 1 \<and> b = 5404319552844595 / 18014398509481984
                then 6305039478318694 / 9007199254740992 else a - b)
        (5404319552844595 / 18014398509481984)
        [\<lparr>hit_content = ''alpha'', hit_metadata = [(''source'', MStr ''a.txt'')],
          distance = 6305039478318694 / 9007199254740992, hit_id = ''h1''\<rparr>] = []"
  by (simp add: build_context_def enumerate_eq_zip)

text \<open>
  C3, amended. For every list of hits and every threshold, context assembly keeps exactly
  the hits whose distance is strictly less than \<open>1 - threshold\<close>, the floating-point
  difference as the code computes it, in input order, and joins their blocks; a hit whose
  distance equals that difference is left out.
\<close>

theorem context_keeps_distance_below_cutoff:
  "context_loop float_sub thr (enumerate 1 docs) [] =
     map (\<lambda>(i, doc). source_block i doc)
       (filter (\<lambda>(i, doc). distance doc < float_sub 1 thr) (enumerate 1 docs))
   \<and> build_context float_sub thr docs =
       join context_separator
         (map (\<lambda>(i, doc). source_block i doc)
            (filter (\<lambda>(i, doc). distance doc < float_sub 1 thr) (enumerate 1 docs)))
   \<and> (distance doc = float_sub 1 thr \<longrightarrow> build_context float_sub thr [doc] = [])"
proof -
  have loop: "context_loop float_sub thr (enumerate 1 docs) [] =
     map (\<lambda>(i, doc). source_block i doc)
       (filter (\<lambda>(i, doc). distance doc < float_sub 1 thr) (enumerate 1 docs))"
    by (simp add: context_loop_eq)
  have "build_context float_sub thr docs =
       join context_separator
         (map (\<lambda>(i, doc). source_block i doc)
            (filter (\<lambda>(i, doc). distance doc < float_sub 1 thr) (enumerate 1 docs)))"
    using loop by (cases "docs = []") (simp_all add: build_context_def)
  moreover have "distance doc = float_sub 1 thr \<longrightarrow> build_context float_sub thr [doc] = []"
    by (auto simp: build_context_def)
  ultimately show ?thesis using loop by blast
qed

theorem context_keeps_distance_below_cutoff_witness:
  "build_context (\<lambda>a b. a - b) (1 / 2)
     [\<lparr>hit_content = ''alpha'', hit_metadata = [(''source'', MStr ''a.txt'')],
       distance = 1 / 2, hit_id = ''h1''\<rparr>] = []
   \<and> build_context (\<lambda>a b. a - b) (1 / 2)
     [\<lparr>hit_content = ''alpha'', hit_metadata = [(''source'', MStr ''a.txt'')],
       distance = 1 / 4, hit_id = ''h1''\<rparr>] =
     ''[Source 1: a.txt]'' @ [CHR 0x0A] @ ''alpha'' @ [CHR 0x0A]"
  using context_keeps_distance_below_cutoff[where float_sub = "\<lambda>a b. a - b" and thr = "1 / 2"
     and docs = "[\<lparr>hit_content = ''alpha'', hit_metadata = [(''source'', MStr ''a.txt'')],
       distance = 1 / 4, hit_id = ''h1''\<rparr>]"
     and doc = "\<lparr>hit_content = ''alpha'', hit_metadata = [(''source'', MStr ''a.txt'')],
       distance = 1 / 2, hit_id = ''h1''\<rparr>"]
  by (simp add: source_block_def str_nat.simps py_str_def dict_get_default_def)

text \<open>
  C7. Each kept block carries the 1-based rank of its hit among all the input hits: the
  kept blocks are those of the input positions \<open>i\<close> that pass the filter, labelled
  \<open>i + 1\<close>, and the context is their join. With threshold 0.7 and hits at similarities 0.9
  and 0.5 (distances 0.1 and 0.5, the rounded difference \<open>1 - 0.7\<close> lying between them)
  the context is the first hit's block alone, labelled \<open>Source 1\<close>; with the two hits in
  the other order the surviving block is labelled \<open>Source 2\<close>, not renumbered.
\<close>

theorem context_labels_are_input_ranks:
  "context_loop float_sub thr (enumerate 1 docs) [] =
     map (\<lambda>i. source_block (Suc i) (docs ! i))
       (filter (\<lambda>i. distance (docs ! i) < float_sub 1 thr) [0..<length docs])
   \<and> build_context float_sub thr docs =
       join context_separator
         (map (\<lambda>i. source_block (Suc i) (docs ! i))
            (filter (\<lambda>i. distance (docs ! i) < float_sub 1 thr) [0..<length docs]))
   \<and> (1 / 10 < float_sub 1 (7 / 10) \<and> float_sub 1 (7 / 10) \<le> 1 / 2 \<longrightarrow>
        build_context float_sub (7 / 10)
          [\<lparr>hit_content = ''alpha'', hit_metadata = [(''source'', MStr ''a.txt'')],
            distance = 1 / 10, hit_id = ''h1''\<rparr>,
           \<lparr>hit_content = ''beta'', hit_metadata = [(''source'', MStr ''b.txt'')],
            distance = 1 / 2, hit_id = ''h2''\<rparr>] =
        ''[Source 1: a.txt]'' @ [CHR 0x0A] @ ''alpha'' @ [CHR 0x0A]
      \<and> build_context float_sub (7 / 10)
          [\<lparr>hit_content = ''beta'', hit_metadata = [(''source'', MStr ''b.txt'')],
            distance = 1 / 2, hit_id = ''h2''\<rparr>,
           \<lparr>hit_content = ''alpha'', hit_metadata = [(''source'', MStr ''a.txt'')],
            distance = 1 / 10, hit_id = ''h1''\<rparr>] =
        ''[Source 2: a.txt]'' @ [CHR 0x0A] @ ''alpha'' @ [CHR 0x0A])"
proof (intro conjI impI)
  show loop: "context_loop float_sub thr (enumerate 1 docs) [] =
     map (\<lambda>i. source_block (Suc i) (docs ! i))
       (filter (\<lambda>i. distance (docs ! i) < float_sub 1 thr) [0..<length docs])"
    by (simp add: context_loop_eq enumerate_as_indices filter_map comp_def)
  show "build_context float_sub thr docs =
       join context_separator
         (map (\<lambda>i. source_block (Suc i) (docs ! i))
            (filter (\<lambda>i. distance (docs ! i) < float_sub 1 thr) [0..<length docs]))"
    using loop by (cases "docs = []") (simp_all add: build_context_def)
next
  assume c: "1 / 10 < float_sub 1 (7 / 10) \<and> float_sub 1 (7 / 10) \<le> 1 / 2"
  then show "build_context float_sub (7 / 10)
          [\<lparr>hit_content = ''alpha'', hit_metadata = [(''source'', MStr ''a.txt'')],
            distance = 1 / 10, hit_id = ''h1''\<rparr>,
           \<lparr>hit_content = ''beta'', hit_metadata = [(''source'', MStr ''b.txt'')],
            distance = 1 / 2, hit_id = ''h2''\<rparr>] =
        ''[Source 1: a.txt]'' @ [CHR 0x0A] @ ''alpha'' @ [CHR 0x0A]"
    by (simp add: build_context_def source_block_def str_nat.simps py_str_def
          dict_get_default_def)
  from c show "build_context float_sub (7 / 10)
          [\<lparr>hit_content = ''beta'', hit_metadata = [(''source'', MStr ''b.txt'')],
            distance = 1 / 2, hit_id = ''h2''\<rparr>,
           \<lparr>hit_content = ''alpha'', hit_metadata = [(''source'', MStr ''a.txt'')],
            distance = 1 / 10, hit_id = ''h1''\<rparr>] =
        ''[Source 2: a.txt]'' @ [CHR 0x0A] @ ''alpha'' @ [CHR 0x0A]"
    by (simp add: build_context_def source_block_def str_nat.simps py_str_def
          dict_get_default_def)
qed

theorem context_labels_are_input_ranks_witness:
  "build_context (\<lambda>a b. a - b) (7 / 10)
       [\<lparr>hit_content = ''alpha'', hit_metadata = [(''source'', MStr ''a.txt'')],
         distance = 1 / 10, hit_id = ''h1''\<rparr>,
        \<lparr>hit_content = ''beta'', hit_metadata = [(''source'', MStr ''b.txt'')],
         distance = 1 / 2, hit_id = ''h2''\<rparr>] =
     ''[Source 1: a.txt]'' @ [CHR 0x0A] @ ''alpha'' @ [CHR 0x0A]
   \<and> build_context (\<lambda>a b. a - b) (7 / 10)
       [\<lparr>hit_content = ''beta'', hit_metadata = [(''source'', MStr ''b.txt'')],
         distance = 1 / 2, hit_id = ''h2''\<rparr>,
        \<lparr>hit_content = ''alpha'', hit_metadata = [(''source'', MStr ''a.txt'')],
         distance = 1 / 10, hit_id = ''h1''\<rparr>] =
     ''[Source 2: a.txt]'' @ [CHR 0x0A] @ ''alpha'' @ [CHR 0x0A]"
  using context_labels_are_input_ranks[where float_sub = "\<lambda>a b. a - b" and thr = "7 / 10"
      and docs = "[]"]
  by simp

section \<open>Failures of the query operation\<close>

text \<open>
  C6, as stated, fails. The claim: a failure of the search or of the generation step
  reaches the caller as one \<open>RAGQueryError\<close> that wraps the cause with the question and
  the elapsed time. When the search raises a \<open>ConnectionError\<close>, the call raises that very
  exception: the handler of \<open>query\<close> re-raises what it catches, and no \<open>RAGQueryError\<close>
  class exists in the sources.
\<close>

theorem query_reraises_raw_error:
  "query (\<lambda>q k f. Inl (PyException ''ConnectionError'' ''index unreachable''))
         (\<lambda>m c h. Inr \<lparr>response = ''ok'', model = ''m'', usage = (1, 1), stop_reason = ''end_turn''\<rparr>)
         (\<lambda>a b. a - b) 5 (7 / 10) 0 1 ''question'' (None :: unit option) (None :: unit option)
         None
     = Inl (PyException ''ConnectionError'' ''index unreachable'')
   \<and> exc_class (PyException ''ConnectionError'' ''index unreachable'') \<noteq> ''RAGQueryError''"
  by (simp add: query_def)

text \<open>
  C6, amended. Whenever the search step or the generation step raises an exception inside
  \<open>query\<close>, the call raises that same exception, unchanged: nothing wraps it and no query
  context is attached.
\<close>

theorem query_failure_passes_through:
  "(search user_query (case top_k of None \<Rightarrow> top_k_results
                       | Some k \<Rightarrow> if k \<noteq> 0 then k else top_k_results) filter_metadata = Inl e
      \<longrightarrow> query search generate_response float_sub top_k_results similarity_threshold
            start_time end_time user_query conversation_history filter_metadata top_k = Inl e)
   \<and> (search user_query (case top_k of None \<Rightarrow> top_k_results
                       | Some k \<Rightarrow> if k \<noteq> 0 then k else top_k_results) filter_metadata
         = Inr retrieved_docs
       \<and> generate_response user_query
           (build_context float_sub similarity_threshold retrieved_docs)
           conversation_history = Inl e
      \<longrightarrow> query search generate_response float_sub top_k_results similarity_threshold
            start_time end_time user_query conversation_history filter_metadata top_k = Inl e)"
  by (simp add: query_def Let_def)

theorem query_failure_passes_through_witness:
  "query (\<lambda>q k f. if k = 5 then Inl (PyException ''ConnectionError'' ''index unreachable'') else Inr [])
         (\<lambda>m c h. Inl (PyException ''APITimeoutError'' ''deadline''))
         (\<lambda>a b. a - b) 5 (7 / 10) 0 1 ''question'' (None :: unit option) (None :: unit option)
         None
     = Inl (PyException ''ConnectionError'' ''index unreachable'')
   \<and> query (\<lambda>q k f. if k = 5 then Inl (PyException ''ConnectionError'' ''index unreachable'') else Inr [])
         (\<lambda>m c h. Inl (PyException ''APITimeoutError'' ''deadline''))
         (\<lambda>a b. a - b) 5 (7 / 10) 0 1 ''question'' (None :: unit option) (None :: unit option)
         (Some 3)
     = Inl (PyException ''APITimeoutError'' ''deadline'')"
  using query_failure_passes_through[where
      search = "\<lambda>q k f. if k = 5 then Inl (PyException ''ConnectionError'' ''index unreachable'') else Inr []"
      and generate_response = "\<lambda>m c h. Inl (PyException ''APITimeoutError'' ''deadline'')"
      and float_sub = "\<lambda>a b. a - b"
      and user_query = "''question''" and top_k = None and top_k_results = 5
      and filter_metadata = "None :: unit option" and conversation_history = "None :: unit option"
      and e = "PyException ''ConnectionError'' ''index unreachable''"
      and similarity_threshold = "7 / 10" and start_time = 0 and end_time = 1
      and retrieved_docs = "[]"]
    query_failure_passes_through[where
      search = "\<lambda>q k f. if k = 5 then Inl (PyException ''ConnectionError'' ''index unreachable'') else Inr []"
      and generate_response = "\<lambda>m c h. Inl (PyException ''APITimeoutError'' ''deadline'')"
      and float_sub = "\<lambda>a b. a - b"
      and user_query = "''question''" and top_k = "Some 3" and top_k_results = 5
      and filter_metadata = "None :: unit option" and conversation_history = "None :: unit option"
      and e = "PyException ''APITimeoutError'' ''deadline''"
      and similarity_threshold = "7 / 10" and start_time = 0 and end_time = 1
      and retrieved_docs = "[]"]
  by simp

section \<open>Properties of the conversation memory\<close>

text \<open>
  With at least one turn allowed, an append leaves the session with the most recent
  \<open>2 * max_history\<close> messages of the old history followed by the new message, oldest
  dropped first, so with at most \<open>2 * max_history\<close> of them; the histories of the other
  sessions stay as they were. Reading the history is a function of the two tables and
  changes neither.
\<close>

lemma map_of_update_same: "map_of (AList.update k v d) k = Some v"
  by (simp add: update_conv')

lemma get_history_after_add:
  "get_history (add_message max_history now mem session_id role content metadata) session_id None =
     (let history1 = get_history mem session_id None
                       @ [\<lparr>msg_role = role, msg_content = content, msg_timestamp = now,
                           msg_metadata = (case metadata of None \<Rightarrow> [] | Some m \<Rightarrow> m)\<rparr>]
      in if int (length history1) > max_history * 2
         then py_slice_from history1 (- max_history * 2) else history1)"
  by (simp add: get_history_def add_message_def Let_def dict_get_default_def map_of_update_same)

lemma get_history_other_session:
  "other \<noteq> session_id \<Longrightarrow>
   get_history (add_message max_history now mem session_id role content metadata) other limit =
   get_history mem other limit"
  by (simp add: get_history_def add_message_def Let_def dict_get_default_def update_conv')

lemma py_slice_from_last:
  "0 < k \<Longrightarrow> py_slice_from xs (- int k) = drop (length xs - k) xs"
proof -
  assume "0 < k"
  have "nat (int (length xs) - int k) = length xs - k" by arith
  then show ?thesis using \<open>0 < k\<close> by (simp add: py_slice_from_def py_index_def)
qed

lemma add_message_keeps_most_recent:
  assumes "1 \<le> max_history"
  shows "get_history (add_message max_history now mem session_id role content metadata) session_id None =
     (let history1 = get_history mem session_id None
                       @ [\<lparr>msg_role = role, msg_content = content, msg_timestamp = now,
                           msg_metadata = (case metadata of None \<Rightarrow> [] | Some m \<Rightarrow> m)\<rparr>]
      in drop (length history1 - nat (2 * max_history)) history1)"
proof -
  define k where "k = nat max_history"
  define h where "h = get_history mem session_id None
                       @ [\<lparr>msg_role = role, msg_content = content, msg_timestamp = now,
                           msg_metadata = (case metadata of None \<Rightarrow> [] | Some m \<Rightarrow> m)\<rparr>]"
  have k: "max_history = int k" "0 < k" using assms by (simp_all add: k_def)
  have m: "- max_history * 2 = - int (2 * k)" using k by simp
  have n: "nat (2 * max_history) = 2 * k" using k by simp
  have c: "(int (length h) > max_history * 2) = (length h > 2 * k)" using k by auto
  have "0 < 2 * k" using k by simp
  note sl = py_slice_from_last[OF this]
  have "(if int (length h) > max_history * 2 then py_slice_from h (- max_history * 2) else h)
        = drop (length h - 2 * k) h"
    unfolding c m sl by simp
  then show ?thesis
    unfolding get_history_after_add Let_def n h_def .
qed

lemma add_message_history_bound:
  assumes "1 \<le> max_history"
  shows "int (length (get_history (add_message max_history now mem session_id role content metadata)
                        session_id None)) \<le> 2 * max_history"
proof -
  have "length (get_history (add_message max_history now mem session_id role content metadata)
                        session_id None) \<le> nat (2 * max_history)"
    unfolding add_message_keeps_most_recent[OF assms] Let_def by simp
  then show ?thesis using assms by linarith
qed

text \<open>
  C4. The claim: after each append with \<open>max_turns = N\<close> the retained history has at most
  \<open>2N\<close> messages. With \<open>N = 0\<close> the code keeps everything: the test \<open>len > 0\<close> holds,
  but the slice \<open>history[-0:]\<close> is \<open>history[0:]\<close>, the whole list. After two appends
  the history has two messages, more than \<open>2 * 0\<close>.
\<close>

theorem add_message_zero_turns_never_trims:
  "get_history
     (add_message 0 7
        (add_message 0 5 \<lparr>sessions = [], message_history = []\<rparr> ''s1'' ''user'' ''hi''
           (None :: (string \<times> meta_value) list option))
        ''s1'' ''assistant'' ''hello'' None)
     ''s1'' None =
   [\<lparr>msg_role = ''user'', msg_content = ''hi'', msg_timestamp = 5, msg_metadata = []\<rparr>,
    \<lparr>msg_role = ''assistant'', msg_content = ''hello'', msg_timestamp = 7, msg_metadata = []\<rparr>]
   \<and> \<not> int (length (get_history
         (add_message 0 7
            (add_message 0 5 \<lparr>sessions = [], message_history = []\<rparr> ''s1'' ''user'' ''hi''
               (None :: (string \<times> meta_value) list option))
            ''s1'' ''assistant'' ''hello'' None)
         ''s1'' None)) \<le> 2 * 0"
  by (simp add: get_history_after_add Let_def py_slice_from_def py_index_def)
     (simp add: get_history_def dict_get_default_def)

text \<open>
  C9. A limit of 0 is treated exactly like an absent limit: \<open>get_history\<close> returns what it
  returns without a limit, the entire stored history, and \<open>get_formatted_history\<close> the
  role and content of every stored message, in order; neither is empty when the stored
  history is not empty.
\<close>

theorem get_history_limit_zero_is_no_limit:
  "get_history mem session_id (Some 0) = get_history mem session_id None
   \<and> get_formatted_history mem session_id (Some 0) = get_formatted_history mem session_id None
   \<and> get_history mem session_id (Some 0) = dict_get_default (message_history mem) session_id []
   \<and> get_formatted_history mem session_id (Some 0) =
       map (\<lambda>msg. (msg_role msg, msg_content msg))
         (dict_get_default (message_history mem) session_id [])
   \<and> (dict_get_default (message_history mem) session_id [] \<noteq> []
        \<longrightarrow> get_history mem session_id (Some 0) \<noteq> []
          \<and> get_formatted_history mem session_id (Some 0) \<noteq> [])"
  by (simp add: get_history_def get_formatted_history_def Let_def)

theorem get_history_limit_zero_is_no_limit_witness:
  "get_history
     \<lparr>sessions = [], message_history = [(''s1'',
        [\<lparr>msg_role = ''user'', msg_content = ''hi'', msg_timestamp = 5,
          msg_metadata = ([] :: (string \<times> meta_value) list)\<rparr>])]\<rparr> ''s1'' (Some 0)
   = [\<lparr>msg_role = ''user'', msg_content = ''hi'', msg_timestamp = 5, msg_metadata = []\<rparr>]
   \<and> get_formatted_history
     \<lparr>sessions = [], message_history = [(''s1'',
        [\<lparr>msg_role = ''user'', msg_content = ''hi'', msg_timestamp = 5,
          msg_metadata = ([] :: (string \<times> meta_value) list)\<rparr>])]\<rparr> ''s1'' (Some 0)
   \<noteq> []"
  using get_history_limit_zero_is_no_limit[of
     "\<lparr>sessions = [], message_history = [(''s1'',
        [\<lparr>msg_role = ''user'', msg_content = ''hi'', msg_timestamp = 5,
          msg_metadata = ([] :: (string \<times> meta_value) list)\<rparr>])]\<rparr>" "''s1''"]
  by (simp add: dict_get_default_def get_history_def get_formatted_history_def)

section \<open>Properties of the expiry sweep\<close>

lemma collect_expired_eq:
  "collect_expired now timeout ss acc =
     acc @ map fst (filter (\<lambda>(sid, s). now - last_activity s > timeout) ss)"
  by (induction ss arbitrary: acc) auto

lemma delete_expired_eq:
  "delete_expired ids mem =
     \<lparr>sessions = filter (\<lambda>(sid, s). sid \<notin> set ids) (sessions mem),
      message_history = filter (\<lambda>(sid, h). sid \<notin> set ids) (message_history mem)\<rparr>"
proof (induction ids arbitrary: mem)
  case Nil
  show ?case by simp
next
  case (Cons i ids)
  have d: "\<And>d :: (string \<times> 'b) list.
             (if dict_contains d i then AList.delete i d else d) = AList.delete i d"
    by (simp add: dict_contains_def map_of_eq_None_iff)
  show ?case
    by (auto simp: Cons.IH d AList.delete_eq case_prod_unfold intro!: filter_cong)
qed

lemma filter_not_in_expired:
  assumes "distinct (map fst ss)"
  shows "filter (\<lambda>(sid, s). sid \<notin> set (map fst (filter (\<lambda>(sid, s). P s) ss))) ss
       = filter (\<lambda>(sid, s). \<not> P s) ss"
proof (rule filter_cong[OF refl])
  fix x assume x: "x \<in> set ss"
  obtain sid s where xs: "x = (sid, s)" by (cases x)
  have "(sid \<in> set (map fst (filter (\<lambda>(sid, s). P s) ss))) = P s"
  proof
    assume "sid \<in> set (map fst (filter (\<lambda>(sid, s). P s) ss))"
    then obtain s' where s': "(sid, s') \<in> set ss" "P s'" by auto
    with assms x xs have "s' = s" by (meson eq_key_imp_eq_value)
    with s' show "P s" by simp
  next
    assume "P s"
    with x xs show "sid \<in> set (map fst (filter (\<lambda>(sid, s). P s) ss))" by force
  qed
  then show "(case x of (sid, s) \<Rightarrow> sid \<notin> set (map fst (filter (\<lambda>(sid, s). P s) ss)))
           = (case x of (sid, s) \<Rightarrow> \<not> P s)"
    by (simp add: xs)
qed

text \<open>One sweep with a timeout that \<open>timedelta\<close> can build, on a dictionary of sessions.\<close>

lemma sweep_once:
  assumes "distinct (map fst (sessions mem))" and "\<bar>m div 1440\<bar> \<le> 999999999"
  shows "cleanup_expired_sessions m now mem =
     Inr \<lparr>swept = without_expired (m * 60000000) now mem,
          logged = (if expired_ids (m * 60000000) now mem = [] then None
                    else Some (length (expired_ids (m * 60000000) now mem))),
          returned = PyNone\<rparr>"
proof -
  have t: "timedelta_minutes m = Inr (m * 60000000)"
    using assms(2) by (simp add: timedelta_minutes_def)
  have c: "collect_expired now (m * 60000000) (sessions mem) [] = expired_ids (m * 60000000) now mem"
    by (simp add: collect_expired_eq expired_ids_def)
  have "sessions (delete_expired (expired_ids (m * 60000000) now mem) mem)
        = filter (\<lambda>(sid, s). \<not> now - last_activity s > m * 60000000) (sessions mem)"
    unfolding delete_expired_eq expired_ids_def
    using filter_not_in_expired[OF assms(1), of "\<lambda>s. now - last_activity s > m * 60000000"]
    by simp
  then have d: "delete_expired (expired_ids (m * 60000000) now mem) mem
        = without_expired (m * 60000000) now mem"
    by (simp add: without_expired_def delete_expired_eq)
  show ?thesis
    by (simp add: cleanup_expired_sessions_def t c d Let_def)
qed

lemma without_expired_distinct:
  "distinct (map fst (sessions mem)) \<Longrightarrow>
   distinct (map fst (sessions (without_expired timeout now mem)))"
  by (simp add: without_expired_def distinct_map_filter)

lemma expired_ids_second:
  "expired_ids timeout later (without_expired timeout now mem) =
     map fst (filter (\<lambda>(sid, s). \<not> now - last_activity s > timeout
                                \<and> later - last_activity s > timeout) (sessions mem))"
  by (simp add: expired_ids_def without_expired_def case_prod_unfold conj_commute)

lemma expired_ids_second_empty:
  assumes "later \<le> now"
  shows "expired_ids timeout later (without_expired timeout now mem) = []"
  unfolding expired_ids_second using assms
  by (auto simp: filter_empty_conv)

lemma without_expired_nothing:
  assumes "expired_ids timeout now mem = []"
  shows "without_expired timeout now mem = mem"
proof -
  from assms have "\<forall>x\<in>set (sessions mem). \<not> (case x of (sid, s) \<Rightarrow> now - last_activity s > timeout)"
    by (simp add: expired_ids_def filter_empty_conv)
  then have "filter (\<lambda>(sid, s). \<not> now - last_activity s > timeout) (sessions mem) = sessions mem"
    by (auto simp: filter_id_conv)
  then show ?thesis using assms by (simp add: without_expired_def)
qed

text \<open>
  C5, as stated, fails, in two places. The claim: the sweep returns the count of the
  sessions removed, and a second sweep immediately after, with no activity in between,
  removes none. Take one session whose last activity is at 0 and the timeout of 30
  minutes. A sweep whose clock reads exactly 30 minutes removes nothing, the idle time
  not being strictly greater than the timeout; the next sweep, whose clock reads one
  microsecond more, removes the session, although nothing happened in between: every call
  reads the clock again. And that call evaluates to \<open>None\<close>, not to the count 1: the
  function has no \<open>return\<close> statement and only passes the count to the logger. With a
  timeout of 1440000000000 minutes, which is 1000000000 days, the call does not complete
  at all: building the timeout raises \<open>OverflowError\<close>.
\<close>

theorem sweep_returns_none_and_later_sweep_removes:
  "cleanup_expired_sessions 30 1800000000
      \<lparr>sessions = [(''s1'', \<lparr>sess_session_id = ''s1'', sess_user_id = None,
                       created_at = 0, last_activity = 0, is_active = True\<rparr>)],
       message_history = ([] :: (string \<times> meta_value message list) list)\<rparr>
    = Inr \<lparr>swept =
            \<lparr>sessions = [(''s1'', \<lparr>sess_session_id = ''s1'', sess_user_id = None,
                       created_at = 0, last_activity = 0, is_active = True\<rparr>)],
             message_history = []\<rparr>,
           logged = None, returned = PyNone\<rparr>
   \<and> cleanup_expired_sessions 30 1800000001
      \<lparr>sessions = [(''s1'', \<lparr>sess_session_id = ''s1'', sess_user_id = None,
                       created_at = 0, last_activity = 0, is_active = True\<rparr>)],
       message_history = ([] :: (string \<times> meta_value message list) list)\<rparr>
    = Inr \<lparr>swept = \<lparr>sessions = [], message_history = []\<rparr>,
           logged = Some 1, returned = PyNone\<rparr>
   \<and> PyNone \<noteq> PyInt 1
   \<and> cleanup_expired_sessions 1440000000000 1800000001
      \<lparr>sessions = [(''s1'', \<lparr>sess_session_id = ''s1'', sess_user_id = None,
                       created_at = 0, last_activity = 0, is_active = True\<rparr>)],
       message_history = ([] :: (string \<times> meta_value message list) list)\<rparr>
    = Inl OverflowError"
  by (simp add: cleanup_expired_sessions_def timedelta_minutes_def Let_def dict_contains_def)

text \<open>
  C5, amended. For every session table (a dictionary: distinct keys) and every timeout
  that \<open>timedelta\<close> can build, one call of the sweep removes exactly the sessions whose
  idle time \<open>now - last_activity\<close> is strictly greater than the timeout at the clock
  reading of that call, together with their message histories, and keeps every other
  session and history in place; the call returns nothing (\<open>None\<close>), the count of removed
  sessions being logged when it is not zero. A second sweep with no activity in between
  removes exactly the remaining sessions whose idle time exceeds the timeout at its own
  clock reading; it removes no session, and logs nothing, when its clock reading is not
  later than the first. For a timeout of more than 999999999 days in magnitude the call
  raises \<open>OverflowError\<close>, and nothing is removed.
\<close>

theorem sweep_removes_expired_sessions:
  "(distinct (map fst (sessions mem)) \<and> \<bar>m div 1440\<bar> \<le> 999999999 \<longrightarrow>
      cleanup_expired_sessions m now mem =
        Inr \<lparr>swept = without_expired (m * 60000000) now mem,
             logged = (if expired_ids (m * 60000000) now mem = [] then None
                       else Some (length (expired_ids (m * 60000000) now mem))),
             returned = PyNone\<rparr>
    \<and> cleanup_expired_sessions m later (without_expired (m * 60000000) now mem) =
        Inr \<lparr>swept = without_expired (m * 60000000) later
                        (without_expired (m * 60000000) now mem),
             logged =
               (if expired_ids (m * 60000000) later (without_expired (m * 60000000) now mem) = []
                then None
                else Some (length (expired_ids (m * 60000000) later
                                     (without_expired (m * 60000000) now mem)))),
             returned = PyNone\<rparr>
    \<and> expired_ids (m * 60000000) later (without_expired (m * 60000000) now mem) =
        map fst (filter (\<lambda>(sid, s). \<not> now - last_activity s > m * 60000000
                                   \<and> later - last_activity s > m * 60000000) (sessions mem))
    \<and> (later \<le> now \<longrightarrow>
         cleanup_expired_sessions m later (without_expired (m * 60000000) now mem) =
           Inr \<lparr>swept = without_expired (m * 60000000) now mem,
                logged = None, returned = PyNone\<rparr>))
   \<and> (999999999 < \<bar>m div 1440\<bar> \<longrightarrow> cleanup_expired_sessions m now mem = Inl OverflowError)"
proof (intro conjI impI)
  assume a: "distinct (map fst (sessions mem)) \<and> \<bar>m div 1440\<bar> \<le> 999999999"
  then have d: "distinct (map fst (sessions mem))" and v: "\<bar>m div 1440\<bar> \<le> 999999999"
    by simp_all
  show "cleanup_expired_sessions m now mem =
        Inr \<lparr>swept = without_expired (m * 60000000) now mem,
             logged = (if expired_ids (m * 60000000) now mem = [] then None
                       else Some (length (expired_ids (m * 60000000) now mem))),
             returned = PyNone\<rparr>"
    by (rule sweep_once[OF d v])
  show second: "cleanup_expired_sessions m later (without_expired (m * 60000000) now mem) =
        Inr \<lparr>swept = without_expired (m * 60000000) later
                        (without_expired (m * 60000000) now mem),
             logged =
               (if expired_ids (m * 60000000) later (without_expired (m * 60000000) now mem) = []
                then None
                else Some (length (expired_ids (m * 60000000) later
                                     (without_expired (m * 60000000) now mem)))),
             returned = PyNone\<rparr>"
    by (rule sweep_once[OF without_expired_distinct[OF d] v])
  show "expired_ids (m * 60000000) later (without_expired (m * 60000000) now mem) =
        map fst (filter (\<lambda>(sid, s). \<not> now - last_activity s > m * 60000000
                                   \<and> later - last_activity s > m * 60000000) (sessions mem))"
    by (rule expired_ids_second)
  {
    assume l: "later \<le> now"
    have e: "expired_ids (m * 60000000) later (without_expired (m * 60000000) now mem) = []"
      by (rule expired_ids_second_empty[OF l])
    show "cleanup_expired_sessions m later (without_expired (m * 60000000) now mem) =
           Inr \<lparr>swept = without_expired (m * 60000000) now mem,
                logged = None, returned = PyNone\<rparr>"
      unfolding second using e without_expired_nothing[OF e] by simp
  }
next
  assume "999999999 < \<bar>m div 1440\<bar>"
  then show "cleanup_expired_sessions m now mem = Inl OverflowError"
    by (simp add: cleanup_expired_sessions_def timedelta_minutes_def)
qed

theorem sweep_removes_expired_sessions_witness:
  "cleanup_expired_sessions 30 1800000001
      \<lparr>sessions =
          [(''s1'', \<lparr>sess_session_id = ''s1'', sess_user_id = None, created_at = 0,
                    last_activity = 0, is_active = True\<rparr>),
           (''s2'', \<lparr>sess_session_id = ''s2'', sess_user_id = None, created_at = 0,
                    last_activity = 1, is_active = True\<rparr>)],
        message_history =
          [(''s1'', [\<lparr>msg_role = ''user'', msg_content = ''a'', msg_timestamp = 0,
                     msg_metadata = ([] :: (string \<times> meta_value) list)\<rparr>]),
           (''s2'', [\<lparr>msg_role = ''user'', msg_content = ''b'', msg_timestamp = 1,
                     msg_metadata = []\<rparr>])]\<rparr>
   = Inr \<lparr>swept =
      \<lparr>sessions =
          [(''s2'', \<lparr>sess_session_id = ''s2'', sess_user_id = None, created_at = 0,
                    last_activity = 1, is_active = True\<rparr>)],
        message_history =
          [(''s2'', [\<lparr>msg_role = ''user'', msg_content = ''b'', msg_timestamp = 1,
                     msg_metadata = ([] :: (string \<times> meta_value) list)\<rparr>])]\<rparr>,
      logged = Some 1, returned = PyNone\<rparr>
   \<and> cleanup_expired_sessions 30 1800000002
      \<lparr>sessions =
          [(''s2'', \<lparr>sess_session_id = ''s2'', sess_user_id = None, created_at = 0,
                    last_activity = 1, is_active = True\<rparr>)],
        message_history =
          [(''s2'', [\<lparr>msg_role = ''user'', msg_content = ''b'', msg_timestamp = 1,
                     msg_metadata = ([] :: (string \<times> meta_value) list)\<rparr>])]\<rparr>
   = Inr \<lparr>swept = \<lparr>sessions = [], message_history = []\<rparr>,
      logged = Some 1, returned = PyNone\<rparr>
   \<and> cleanup_expired_sessions 30 1800000001
      \<lparr>sessions =
          [(''s2'', \<lparr>sess_session_id = ''s2'', sess_user_id = None, created_at = 0,
                    last_activity = 1, is_active = True\<rparr>)],
        message_history =
          [(''s2'', [\<lparr>msg_role = ''user'', msg_content = ''b'', msg_timestamp = 1,
                     msg_metadata = ([] :: (string \<times> meta_value) list)\<rparr>])]\<rparr>
   = Inr \<lparr>swept =
      \<lparr>sessions =
          [(''s2'', \<lparr>sess_session_id = ''s2'', sess_user_id = None, created_at = 0,
                    last_activity = 1, is_active = True\<rparr>)],
        message_history =
          [(''s2'', [\<lparr>msg_role = ''user'', msg_content = ''b'', msg_timestamp = 1,
                     msg_metadata = ([] :: (string \<times> meta_value) list)\<rparr>])]\<rparr>,
      logged = None, returned = PyNone\<rparr>
   \<and> cleanup_expired_sessions 1440000000000 1800000001
      \<lparr>sessions =
          [(''s1'', \<lparr>sess_session_id = ''s1'', sess_user_id = None, created_at = 0,
                    last_activity = 0, is_active = True\<rparr>),
           (''s2'', \<lparr>sess_session_id = ''s2'', sess_user_id = None, created_at = 0,
                    last_activity = 1, is_active = True\<rparr>)],
        message_history =
          [(''s1'', [\<lparr>msg_role = ''user'', msg_content = ''a'', msg_timestamp = 0,
                     msg_metadata = ([] :: (string \<times> meta_value) list)\<rparr>]),
           (''s2'', [\<lparr>msg_role = ''user'', msg_content = ''b'', msg_timestamp = 1,
                     msg_metadata = []\<rparr>])]\<rparr>
   = Inl OverflowError"
  using sweep_removes_expired_sessions[where m = 30 and now = 1800000001 and later = 1800000002
      and mem = "\<lparr>sessions =
          [(''s1'', \<lparr>sess_session_id = ''s1'', sess_user_id = None, created_at = 0,
                    last_activity = 0, is_active = True\<rparr>),
           (''s2'', \<lparr>sess_session_id = ''s2'', sess_user_id = None, created_at = 0,
                    last_activity = 1, is_active = True\<rparr>)],
        message_history =
          [(''s1'', [\<lparr>msg_role = ''user'', msg_content = ''a'', msg_timestamp = 0,
                     msg_metadata = ([] :: (string \<times> meta_value) list)\<rparr>]),
           (''s2'', [\<lparr>msg_role = ''user'', msg_content = ''b'', msg_timestamp = 1,
                     msg_metadata = []\<rparr>])]\<rparr>"]
    sweep_removes_expired_sessions[where m = 30 and now = 1800000001 and later = 1800000001
      and mem = "\<lparr>sessions =
          [(''s1'', \<lparr>sess_session_id = ''s1'', sess_user_id = None, created_at = 0,
                    last_activity = 0, is_active = True\<rparr>),
           (''s2'', \<lparr>sess_session_id = ''s2'', sess_user_id = None, created_at = 0,
                    last_activity = 1, is_active = True\<rparr>)],
        message_history =
          [(''s1'', [\<lparr>msg_role = ''user'', msg_content = ''a'', msg_timestamp = 0,
                     msg_metadata = ([] :: (string \<times> meta_value) list)\<rparr>]),
           (''s2'', [\<lparr>msg_role = ''user'', msg_content = ''b'', msg_timestamp = 1,
                     msg_metadata = []\<rparr>])]\<rparr>"]
    sweep_removes_expired_sessions[where m = 1440000000000 and now = 1800000001
      and mem = "\<lparr>sessions =
          [(''s1'', \<lparr>sess_session_id = ''s1'', sess_user_id = None, created_at = 0,
                    last_activity = 0, is_active = True\<rparr>),
           (''s2'', \<lparr>sess_session_id = ''s2'', sess_user_id = None, created_at = 0,
                    last_activity = 1, is_active = True\<rparr>)],
        message_history =
          [(''s1'', [\<lparr>msg_role = ''user'', msg_content = ''a'', msg_timestamp = 0,
                     msg_metadata = ([] :: (string \<times> meta_value) list)\<rparr>]),
           (''s2'', [\<lparr>msg_role = ''user'', msg_content = ''b'', msg_timestamp = 1,
                     msg_metadata = []\<rparr>])]\<rparr>"]
  by (simp add: without_expired_def expired_ids_def)

section \<open>Properties of chunk\_document\<close>

lemma chunk_parts_eq:
  "chunk_parts cs ov fn ty parts acc =
     map_option
       (\<lambda>tcs. acc @ concat (map (\<lambda>(p, tc). map (make_chunk fn ty p) (enumerate 0 tc))
                               (zip parts tcs)))
       (those (map (\<lambda>p. split_text cs ov (part_text p)) parts))"
proof (induction parts arbitrary: acc)
  case Nil
  show ?case by simp
next
  case (Cons p parts)
  show ?case
    by (cases "split_text cs ov (part_text p)")
       (simp_all add: Cons.IH option.map_comp comp_def)
qed

lemma loader_part_attrs:
  assumes "loader_part p"
  obtains k v where "part_attrs p = [(k, v)]" and "k \<noteq> ''chunk_index''" and "k \<noteq> ''source''"
    and "k \<noteq> ''type''"
proof -
  from assms have "map fst (part_attrs p) \<in> {[''page''], [''paragraph''], [''section''], [''row'']}"
    by (simp add: loader_part_def)
  then obtain k where k: "map fst (part_attrs p) = [k]"
    "k \<in> {''page'', ''paragraph'', ''section'', ''row''}" by auto
  then obtain v where "part_attrs p = [(k, v)]" by (cases "part_attrs p") auto
  with k that show thesis by auto
qed

lemma make_chunk_loader_part:
  assumes "loader_part p"
  shows "map_of (chunk_metadata (make_chunk fn ty p (i, t))) ''chunk_index'' = Some (MInt (int i))
       \<and> map_of (chunk_metadata (make_chunk fn ty p (i, t))) ''source'' = Some (MStr fn)
       \<and> chunk_content (make_chunk fn ty p (i, t)) = t"
proof -
  from assms obtain k v where "part_attrs p = [(k, v)]" "k \<noteq> ''chunk_index''" "k \<noteq> ''source''"
    "k \<noteq> ''type''" by (rule loader_part_attrs)
  then show ?thesis
    by (simp add: make_chunk_def make_metadata_def)
qed

text \<open>
  C10. The chunks of a document are, segment after segment, the pieces of the segment's
  text, each built from its 0-based position within its own segment (the call has no
  result when a split does not return); for a segment as the loaders build it, that
  position is the chunk's \<open>chunk_index\<close> and the file name is its \<open>source\<close>. The index
  restarts at 0 with every segment: a PDF of two short pages gives two chunks that both
  have source \<open>f.pdf\<close> and \<open>chunk_index\<close> 0, so the pair is not unique within a document.
\<close>

theorem chunk_index_restarts_per_segment:
  "chunk_document cs ov doc fn =
     map_option
       (\<lambda>tcs. concat (map (\<lambda>(p, tc). map (make_chunk fn (doc_type doc) p) (enumerate 0 tc))
                         (zip (doc_content doc) tcs)))
       (those (map (\<lambda>p. split_text cs ov (part_text p)) (doc_content doc)))
   \<and> (loader_part p \<longrightarrow>
        map_of (chunk_metadata (make_chunk fn ty p (i, t))) ''chunk_index'' = Some (MInt (int i))
      \<and> map_of (chunk_metadata (make_chunk fn ty p (i, t))) ''source'' = Some (MStr fn)
      \<and> chunk_content (make_chunk fn ty p (i, t)) = t)
   \<and> chunk_document 1000 200
        \<lparr>doc_content = [\<lparr>part_text = ''first page'', part_attrs = [(''page'', MInt 1)]\<rparr>,
                        \<lparr>part_text = ''second page'', part_attrs = [(''page'', MInt 2)]\<rparr>],
         doc_type = ''pdf''\<rparr> ''f.pdf'' =
      Some [\<lparr>chunk_content = ''first page'',
             chunk_metadata = [(''source'', MStr ''f.pdf''), (''type'', MStr ''pdf''),
                               (''chunk_index'', MInt 0), (''page'', MInt 1)]\<rparr>,
            \<lparr>chunk_content = ''second page'',
             chunk_metadata = [(''source'', MStr ''f.pdf''), (''type'', MStr ''pdf''),
                               (''chunk_index'', MInt 0), (''page'', MInt 2)]\<rparr>]"
proof (intro conjI impI)
  show "chunk_document cs ov doc fn =
     map_option
       (\<lambda>tcs. concat (map (\<lambda>(p, tc). map (make_chunk fn (doc_type doc) p) (enumerate 0 tc))
                         (zip (doc_content doc) tcs)))
       (those (map (\<lambda>p. split_text cs ov (part_text p)) (doc_content doc)))"
    by (simp add: chunk_document_def chunk_parts_eq)
next
  assume lp: "loader_part p"
  from make_chunk_loader_part[OF lp, of fn ty i t]
  show "map_of (chunk_metadata (make_chunk fn ty p (i, t))) ''chunk_index'' = Some (MInt (int i))"
    "map_of (chunk_metadata (make_chunk fn ty p (i, t))) ''source'' = Some (MStr fn)"
    "chunk_content (make_chunk fn ty p (i, t)) = t"
    by simp_all
next
  show "chunk_document 1000 200
        \<lparr>doc_content = [\<lparr>part_text = ''first page'', part_attrs = [(''page'', MInt 1)]\<rparr>,
                        \<lparr>part_text = ''second page'', part_attrs = [(''page'', MInt 2)]\<rparr>],
         doc_type = ''pdf''\<rparr> ''f.pdf'' =
      Some [\<lparr>chunk_content = ''first page'',
             chunk_metadata = [(''source'', MStr ''f.pdf''), (''type'', MStr ''pdf''),
                               (''chunk_index'', MInt 0), (''page'', MInt 1)]\<rparr>,
            \<lparr>chunk_content = ''second page'',
             chunk_metadata = [(''source'', MStr ''f.pdf''), (''type'', MStr ''pdf''),
                               (''chunk_index'', MInt 0), (''page'', MInt 2)]\<rparr>]"
    by (simp add: chunk_document_def split_text_def make_chunk_def make_metadata_def
          enumerate_eq_zip)
qed

theorem chunk_index_restarts_per_segment_witness:
  "map_of (chunk_metadata (make_chunk ''f.docx'' ''docx''
       \<lparr>part_text = ''x'', part_attrs = [(''paragraph'', MInt 4)]\<rparr> (3, ''piece'')))
     ''chunk_index'' = Some (MInt 3)
   \<and> map_of (chunk_metadata (make_chunk ''f.docx'' ''docx''
       \<lparr>part_text = ''x'', part_attrs = [(''paragraph'', MInt 4)]\<rparr> (3, ''piece'')))
     ''source'' = Some (MStr ''f.docx'')"
  using chunk_index_restarts_per_segment[of 1000 200
      "\<lparr>doc_content = [], doc_type = ''docx''\<rparr>" "''f.docx''"
      "\<lparr>part_text = ''x'', part_attrs = [(''paragraph'', MInt 4)]\<rparr>" "''docx''" 3 "''piece''"]
  by (simp add: loader_part_def)

end
